theory Spec2Isabelle
  imports Complex_Main "HOL-Library.Sublist"
begin

section \<open>Text: Python strings as lists of code points\<close>

text \<open>
  A Python \<^verbatim>\<open>str\<close> is a sequence of Unicode code points and \<^verbatim>\<open>len\<close> counts code
  points, so a string is a list of natural numbers. The tools use one character beyond
  ASCII, the bullet U+2022. The character classes (\<^verbatim>\<open>isspace\<close>, \<^verbatim>\<open>isdigit\<close>,
  \<^verbatim>\<open>isupper\<close>, \<^verbatim>\<open>lower\<close>, and the classes \<^verbatim>\<open>\s\<close> and \<^verbatim>\<open>\d\<close> of \<^verbatim>\<open>re\<close>) are
  the interpreter's on the ASCII range; a code point above 127 is taken as a caseless
  symbol that is neither whitespace nor a digit.
\<close>

type_synonym pystr = "nat list"

definition str :: "string \<Rightarrow> pystr" where
  "str cs = map of_char cs"

definition bullet :: nat where
  "bullet = 8226"

definition isspace :: "nat \<Rightarrow> bool" where
  "isspace c = ((9 \<le> c \<and> c \<le> 13) \<or> (28 \<le> c \<and> c \<le> 32))"

definition isdigit :: "nat \<Rightarrow> bool" where
  "isdigit c = (48 \<le> c \<and> c \<le> 57)"

definition isupper :: "nat \<Rightarrow> bool" where
  "isupper c = (65 \<le> c \<and> c \<le> 90)"

definition lower_char :: "nat \<Rightarrow> nat" where
  "lower_char c = (if isupper c then c + 32 else c)"

definition lower :: "pystr \<Rightarrow> pystr" where
  "lower s = map lower_char s"

text \<open>\<^verbatim>\<open>sub in s\<close>: some suffix of \<open>s\<close> starts with \<open>sub\<close>.\<close>

fun contains :: "pystr \<Rightarrow> pystr \<Rightarrow> bool" where
  "contains sub [] = (sub = [])"
| "contains sub (c # cs) = (prefix sub (c # cs) \<or> contains sub cs)"

text \<open>\<^verbatim>\<open>any(m in s for m in ms)\<close>.\<close>

definition contains_any :: "pystr list \<Rightarrow> pystr \<Rightarrow> bool" where
  "contains_any ms s = list_ex (\<lambda>m. contains m s) ms"

text \<open>\<^verbatim>\<open>s.strip()\<close> removes the whitespace at both ends.\<close>

definition strip :: "pystr \<Rightarrow> pystr" where
  "strip s = rev (dropWhile isspace (rev (dropWhile isspace s)))"

text \<open>
  \<^verbatim>\<open>s.split(sep)\<close> for a one-character separator, and \<^verbatim>\<open>re.split\<close> on a character
  class: the pieces between the separators, empty pieces kept, so the result is never
  empty.
\<close>

fun split_where :: "(nat \<Rightarrow> bool) \<Rightarrow> pystr \<Rightarrow> pystr list" where
  "split_where P [] = [[]]"
| "split_where P (c # cs) =
     (if P c then [] # split_where P cs
      else (case split_where P cs of
              [] \<Rightarrow> [[c]]
            | w # ws \<Rightarrow> (c # w) # ws))"

definition split_on :: "nat \<Rightarrow> pystr \<Rightarrow> pystr list" where
  "split_on sep s = split_where (\<lambda>c. c = sep) s"

text \<open>
  \<^verbatim>\<open>s.split()\<close> without a separator: the maximal runs of non-whitespace, no empty
  piece. \<open>acc\<close> is the current run, reversed.
\<close>

fun split_ws_acc :: "pystr \<Rightarrow> pystr \<Rightarrow> pystr list" where
  "split_ws_acc acc [] = (if acc = [] then [] else [rev acc])"
| "split_ws_acc acc (c # cs) =
     (if isspace c
      then (if acc = [] then split_ws_acc [] cs else rev acc # split_ws_acc [] cs)
      else split_ws_acc (c # acc) cs)"

definition split_ws :: "pystr \<Rightarrow> pystr list" where
  "split_ws s = split_ws_acc [] s"

text \<open>\<^verbatim>\<open>line.startswith((' ', '\t', '-', bullet, '*'))\<close>.\<close>

definition starts_bullet :: "pystr \<Rightarrow> bool" where
  "starts_bullet line =
     (case line of [] \<Rightarrow> False | c # _ \<Rightarrow> c = 32 \<or> c = 9 \<or> c = 45 \<or> c = bullet \<or> c = 42)"

subsection \<open>Errors\<close>

text \<open>The exceptions the operations of the tools can raise.\<close>

datatype py_error = IndexError | ZeroDivisionError | ValueError

text \<open>\<^verbatim>\<open>s[0]\<close> raises on the empty string.\<close>

definition first_char :: "pystr \<Rightarrow> py_error + nat" where
  "first_char s = (case s of [] \<Rightarrow> Inl IndexError | c # _ \<Rightarrow> Inr c)"

text \<open>
  \<^verbatim>\<open>a / b\<close> on two \<^verbatim>\<open>int\<close>s. Python returns the float nearest to the quotient; the
  model keeps the quotient itself.
\<close>

definition truediv :: "nat \<Rightarrow> nat \<Rightarrow> py_error + rat" where
  "truediv a b = (if b = 0 then Inl ZeroDivisionError else Inr (of_nat a / of_nat b))"

section \<open>GradeLevelAnalyzer\<close>

datatype grade_range = Elementary | MiddleSchool | HighSchoolPlus

datatype complexity_level = Low | Medium | High

record complexity_report =
  grade_range :: grade_range
  complexity :: complexity_level
  avg_word_length :: rat
  avg_sentence_length :: rat

text \<open>\<^verbatim>\<open>sum(len(word) for word in words) / len(words) if words else 0\<close>.\<close>

definition avg_word_length_of :: "pystr list \<Rightarrow> py_error + rat" where
  "avg_word_length_of words =
     (if words \<noteq> [] then truediv (sum_list (map length words)) (length words) else Inr 0)"

text \<open>\<^verbatim>\<open>len(words) / len(sentences) if sentences else 0\<close>.\<close>

definition avg_sentence_length_of :: "pystr list \<Rightarrow> pystr list \<Rightarrow> py_error + rat" where
  "avg_sentence_length_of words sentences =
     (if sentences \<noteq> [] then truediv (length words) (length sentences) else Inr 0)"

text \<open>The \<^verbatim>\<open>if\<close>/\<^verbatim>\<open>elif\<close>/\<^verbatim>\<open>else\<close> chain of the complexity scoring.\<close>

definition bracket :: "rat \<Rightarrow> rat \<Rightarrow> grade_range \<times> complexity_level" where
  "bracket awl asl =
     (if awl < 45 / 10 \<and> asl < 10 then (Elementary, Low)
      else if awl < 55 / 10 \<and> asl < 15 then (MiddleSchool, Medium)
      else (HighSchoolPlus, High))"

definition complexity_analysis :: "pystr \<Rightarrow> py_error + complexity_report" where
  "complexity_analysis notes =
     (let words = split_ws notes;
          sentences = split_on 46 notes
      in case avg_word_length_of words of
           Inl e \<Rightarrow> Inl e
         | Inr awl \<Rightarrow>
             (case avg_sentence_length_of words sentences of
                Inl e \<Rightarrow> Inl e
              | Inr asl \<Rightarrow>
                  Inr \<lparr>grade_range = fst (bracket awl asl),
                       complexity = snd (bracket awl asl),
                       avg_word_length = awl,
                       avg_sentence_length = asl\<rparr>))"

definition grade_range_label :: "grade_range \<Rightarrow> pystr" where
  "grade_range_label g =
     (case g of
        Elementary \<Rightarrow> str ''Elementary (K-5)''
      | MiddleSchool \<Rightarrow> str ''Middle School (6-8)''
      | HighSchoolPlus \<Rightarrow> str ''High School+ (9-12+)'')"

definition complexity_label :: "complexity_level \<Rightarrow> pystr" where
  "complexity_label c =
     (case c of Low \<Rightarrow> str ''Low'' | Medium \<Rightarrow> str ''Medium'' | High \<Rightarrow> str ''High'')"

text \<open>The text that starts every item line: two spaces, the bullet, a space.\<close>

definition item_prefix :: pystr where
  "item_prefix = [32, 32, bullet, 32]"

text \<open>
  The rendered report. \<open>fmt\<close> is the format specification \<^verbatim>\<open>:.1f\<close>, the interpreter's
  conversion of a float to text with one digit after the point; it works on the binary
  value of the float and is a parameter here.
\<close>

definition render_complexity :: "(rat \<Rightarrow> pystr) \<Rightarrow> complexity_report \<Rightarrow> pystr" where
  "render_complexity fmt r =
     str ''Content Complexity Analysis:'' @ [10]
     @ item_prefix @ str ''Suggested Grade Range: '' @ grade_range_label (grade_range r) @ [10]
     @ item_prefix @ str ''Complexity Level: '' @ complexity_label (complexity r) @ [10]
     @ item_prefix @ str ''Average Word Length: '' @ fmt (avg_word_length r)
       @ str '' characters'' @ [10]
     @ item_prefix @ str ''Average Sentence Length: '' @ fmt (avg_sentence_length r)
       @ str '' words'' @ [10]"

definition GradeLevelAnalyzer_run :: "(rat \<Rightarrow> pystr) \<Rightarrow> pystr \<Rightarrow> py_error + pystr" where
  "GradeLevelAnalyzer_run fmt notes =
     (case complexity_analysis notes of
        Inl e \<Rightarrow> Inl e
      | Inr r \<Rightarrow> Inr (render_complexity fmt r))"

section \<open>NotesAnalysisTool\<close>

text \<open>Sequencing of operations that can raise: the first error ends the computation.\<close>

definition bind_err :: "py_error + 'a \<Rightarrow> ('a \<Rightarrow> py_error + 'b) \<Rightarrow> py_error + 'b" where
  "bind_err m f = (case m of Inl e \<Rightarrow> Inl e | Inr x \<Rightarrow> f x)"

text \<open>A \<^verbatim>\<open>for line in lines\<close> loop whose body can raise, over the loop's variables \<open>st\<close>.\<close>

fun run_lines :: "('s \<Rightarrow> pystr \<Rightarrow> py_error + 's) \<Rightarrow> 's \<Rightarrow> pystr list \<Rightarrow> py_error + 's" where
  "run_lines step st [] = Inr st"
| "run_lines step st (line # rest) =
     (case step st line of Inl e \<Rightarrow> Inl e | Inr st' \<Rightarrow> run_lines step st' rest)"

subsection \<open>\<^verbatim>\<open>_identify_subject\<close>\<close>

text \<open>
  The dictionary \<^verbatim>\<open>subject_keywords\<close>, in the order of its literal: a Python
  dictionary iterates in insertion order.
\<close>

definition subject_keywords :: "(pystr \<times> pystr list) list" where
  "subject_keywords =
    [(str ''Mathematics'',
      map str [''equation'', ''solve'', ''calculate'', ''algebra'', ''geometry'',
               ''theorem'', ''formula'', ''graph'', ''function'', ''variable'',
               ''quadratic'', ''polynomial'', ''trigonometry'', ''calculus'']),
     (str ''Science'',
      map str [''experiment'', ''hypothesis'', ''cell'', ''atom'', ''chemistry'',
               ''biology'', ''physics'', ''photosynthesis'', ''molecule'', ''energy'',
               ''reaction'', ''organism'', ''ecosystem'', ''matter'']),
     (str ''English/Language Arts'',
      map str [''grammar'', ''writing'', ''literature'', ''essay'',
               ''poem'', ''reading'', ''paragraph'', ''sentence'',
               ''comprehension'', ''vocabulary'', ''author'', ''theme'']),
     (str ''Social Studies/History'',
      map str [''war'', ''revolution'', ''civilization'', ''government'',
               ''geography'', ''culture'', ''society'', ''empire'',
               ''constitution'', ''democracy'', ''economy'']),
     (str ''Music'',
      map str [''rhythm'', ''melody'', ''notation'', ''tempo'', ''scale'', ''chord'',
               ''instrument'', ''beat'', ''harmony'', ''composition'']),
     (str ''Art'',
      map str [''painting'', ''drawing'', ''sculpture'', ''color theory'', ''perspective'',
               ''composition'', ''medium'', ''texture'', ''artist'']),
     (str ''Physical Education'',
      map str [''exercise'', ''fitness'', ''sport'', ''movement'', ''health'',
               ''coordination'', ''athletics'', ''wellness'']),
     (str ''Computer Science'',
      map str [''code'', ''programming'', ''algorithm'', ''software'', ''computer'',
               ''variable'', ''function'', ''loop'', ''debug''])]"

text \<open>\<^verbatim>\<open>sum(1 for keyword in keywords if keyword in notes_lower)\<close>.\<close>

definition keyword_score :: "pystr \<Rightarrow> pystr list \<Rightarrow> nat" where
  "keyword_score notes_lower keywords =
     length (filter (\<lambda>keyword. contains keyword notes_lower) keywords)"

text \<open>
  The loop that fills \<^verbatim>\<open>subject_scores\<close>. The subjects are distinct, so every
  assignment adds a new entry after the earlier ones; the dictionary is the list of its
  entries in insertion order.
\<close>

fun score_subjects :: "pystr \<Rightarrow> (pystr \<times> pystr list) list \<Rightarrow> (pystr \<times> nat) list" where
  "score_subjects notes_lower [] = []"
| "score_subjects notes_lower ((subject, keywords) # rest) =
     (let score = keyword_score notes_lower keywords
      in if score > 0 then (subject, score) # score_subjects notes_lower rest
         else score_subjects notes_lower rest)"

text \<open>
  \<^verbatim>\<open>max(xs, key=key)\<close>: the running maximum is replaced only by a strictly greater
  element; the empty sequence raises.
\<close>

fun max_from :: "('a \<Rightarrow> nat) \<Rightarrow> 'a \<Rightarrow> 'a list \<Rightarrow> 'a" where
  "max_from key best [] = best"
| "max_from key best (x # xs) =
     (if key x > key best then max_from key x xs else max_from key best xs)"

definition py_max :: "('a \<Rightarrow> nat) \<Rightarrow> 'a list \<Rightarrow> py_error + 'a" where
  "py_max key xs = (case xs of [] \<Rightarrow> Inl ValueError | x # rest \<Rightarrow> Inr (max_from key x rest))"

text \<open>
  \<^verbatim>\<open>max(subject_scores, key=subject_scores.get)\<close> runs over the keys and compares
  their values: over the entries, the key function is the second component and the
  result the first.
\<close>

definition identify_subject :: "pystr \<Rightarrow> py_error + pystr" where
  "identify_subject notes =
     (let notes_lower = lower notes;
          subject_scores = score_subjects notes_lower subject_keywords
      in if subject_scores \<noteq> []
         then bind_err (py_max snd subject_scores) (\<lambda>entry. Inr (fst entry))
         else Inr (str ''General/Multi-Subject''))"

subsection \<open>\<^verbatim>\<open>_extract_grade_level\<close>\<close>

text \<open>
  The three patterns, each as the match that starts at the first character of \<open>r\<close>,
  returning group 1. The repetitions are greedy; in each pattern the class that is
  repeated and the character that has to follow are disjoint, so a shorter repetition
  cannot match where the longest one fails, and the group is the longest run of digits.
\<close>

text \<open>\<^verbatim>\<open>grade\s*(\d+)\<close>\<close>

definition match_grade_n :: "pystr \<Rightarrow> pystr option" where
  "match_grade_n r =
     (if prefix (str ''grade'') r
      then (let ds = takeWhile isdigit (dropWhile isspace (drop 5 r))
            in if ds = [] then None else Some ds)
      else None)"

text \<open>\<^verbatim>\<open>(\d+)(?:st|nd|rd|th)\s+grade\<close>\<close>

definition match_nth_grade :: "pystr \<Rightarrow> pystr option" where
  "match_nth_grade r =
     (let ds = takeWhile isdigit r;
          r1 = dropWhile isdigit r
      in if ds = [] then None
         else if prefix (str ''st'') r1 \<or> prefix (str ''nd'') r1
                 \<or> prefix (str ''rd'') r1 \<or> prefix (str ''th'') r1
         then (let r2 = drop 2 r1
               in if takeWhile isspace r2 \<noteq> [] \<and> prefix (str ''grade'') (dropWhile isspace r2)
                  then Some ds else None)
         else None)"

text \<open>\<^verbatim>\<open>level[:\s]+(\d+)\<close>\<close>

definition match_level_n :: "pystr \<Rightarrow> pystr option" where
  "match_level_n r =
     (if prefix (str ''level'') r
      then (let r1 = drop 5 r;
                ds = takeWhile isdigit (dropWhile (\<lambda>c. c = 58 \<or> isspace c) r1)
            in if takeWhile (\<lambda>c. c = 58 \<or> isspace c) r1 = [] \<or> ds = [] then None
               else Some ds)
      else None)"

text \<open>\<^verbatim>\<open>re.search\<close>: the match at the leftmost position that has one.\<close>

fun re_search :: "(pystr \<Rightarrow> 'a option) \<Rightarrow> pystr \<Rightarrow> 'a option" where
  "re_search m [] = m []"
| "re_search m (c # cs) =
     (case m (c # cs) of Some g \<Rightarrow> Some g | None \<Rightarrow> re_search m cs)"

definition grade_patterns :: "(pystr \<Rightarrow> pystr option) list" where
  "grade_patterns = [match_grade_n, match_nth_grade, match_level_n]"

text \<open>The loop over the patterns returns at the first pattern that is found.\<close>

fun first_match :: "(pystr \<Rightarrow> pystr option) list \<Rightarrow> pystr \<Rightarrow> pystr option" where
  "first_match [] s = None"
| "first_match (pattern # rest) s =
     (case re_search pattern s of Some g \<Rightarrow> Some g | None \<Rightarrow> first_match rest s)"

definition extract_grade_level :: "pystr \<Rightarrow> pystr" where
  "extract_grade_level notes =
     (let notes_lower = lower notes
      in case first_match grade_patterns notes_lower of
           Some grade_num \<Rightarrow> str ''Grade '' @ grade_num
         | None \<Rightarrow>
            if contains_any (map str [''elementary'', ''primary'', ''kindergarten'']) notes_lower
            then str ''K-5 (Elementary)''
            else if contains_any (map str [''middle school'', ''junior high'']) notes_lower
            then str ''6-8 (Middle School)''
            else if contains_any (map str [''high school'', ''secondary'']) notes_lower
            then str ''9-12 (High School)''
            else if contains_any (map str [''college'', ''university'', ''undergraduate''])
                      notes_lower
            then str ''College/University''
            else if contains_any (map str [''basic'', ''introduction'', ''simple'', ''beginner''])
                      notes_lower
            then str ''Elementary to Middle School (Est.)''
            else if contains_any (map str [''advanced'', ''complex'', ''in-depth'']) notes_lower
            then str ''High School to College (Est.)''
            else str ''Not Specified (Grades 6-12 adaptable)'')"

subsection \<open>The line-scanned sections\<close>

text \<open>\<^verbatim>\<open>':' in line\<close>.\<close>

definition has_colon :: "pystr \<Rightarrow> bool" where
  "has_colon line = contains (str '':'') line"

text \<open>
  \<^verbatim>\<open>re.sub(r'^[\s\-*]+', '', line)\<close>, the class holding the bullet too: the pattern is
  anchored at the start of the string, so the one match is the leading run of the class.
\<close>

definition strip_bullets :: "pystr \<Rightarrow> pystr" where
  "strip_bullets line = dropWhile (\<lambda>c. isspace c \<or> c = 45 \<or> c = bullet \<or> c = 42) line"

text \<open>
  The extraction at the end of each loop body: the line without its leading bullets and
  surrounding whitespace is appended when it is longer than \<open>n\<close>.
\<close>

definition append_item :: "nat \<Rightarrow> pystr list \<Rightarrow> pystr \<Rightarrow> pystr list" where
  "append_item n items line =
     (let item = strip (strip_bullets line)
      in if item \<noteq> [] \<and> length item > n then items @ [item] else items)"

text \<open>
  The state of a scan is the flag \<^verbatim>\<open>in_..._section\<close> and the list built so far. Each
  step function is the body of the loop of its extractor.
\<close>

type_synonym section_state = "bool \<times> pystr list"

definition concepts_markers :: "pystr list" where
  "concepts_markers = map str [''key concept'', ''main concept'', ''concepts:'']"

definition concepts_step :: "section_state \<Rightarrow> pystr \<Rightarrow> py_error + section_state" where
  "concepts_step st line =
     (let in_concepts_section = fst st;
          concepts = snd st;
          line_lower = strip (lower line)
      in if contains_any concepts_markers line_lower then Inr (True, concepts)
         else bind_err
           (if in_concepts_section \<and> strip line \<noteq> [] \<and> \<not> starts_bullet line
            then (if has_colon line then Inr False
                  else bind_err (first_char line)
                         (\<lambda>c. Inr (if isupper c then False else in_concepts_section)))
            else Inr in_concepts_section)
           (\<lambda>in_section.
              Inr (in_section,
                   if in_section \<and> strip line \<noteq> [] then append_item 5 concepts line
                   else concepts)))"

text \<open>The loop over the lines and the slice \<^verbatim>\<open>concepts[:10]\<close> that is returned.\<close>

definition key_concepts_of_lines :: "pystr list \<Rightarrow> py_error + pystr list" where
  "key_concepts_of_lines lines =
     bind_err (run_lines concepts_step (False, []) lines) (\<lambda>st. Inr (take 10 (snd st)))"

definition extract_key_concepts :: "pystr \<Rightarrow> py_error + pystr list" where
  "extract_key_concepts notes = key_concepts_of_lines (split_on 10 notes)"

definition objectives_markers :: "pystr list" where
  "objectives_markers =
     map str [''learning objective'', ''objective'', ''students will'', ''goal'']"

definition objectives_step :: "section_state \<Rightarrow> pystr \<Rightarrow> py_error + section_state" where
  "objectives_step st line =
     (let objectives = snd st;
          line_lower = strip (lower line);
          marker = contains_any objectives_markers line_lower;
          in_objectives_section = (if marker then True else fst st)
      in if marker \<and> has_colon line then Inr (True, objectives)
         else bind_err
           (if in_objectives_section \<and> strip line \<noteq> [] \<and> \<not> starts_bullet line
            then (if has_colon line then Inr False
                  else bind_err (first_char line)
                         (\<lambda>c. Inr (if isupper c \<and> \<not> contains (str ''objective'') line_lower
                                    then False else in_objectives_section)))
            else Inr in_objectives_section)
           (\<lambda>in_section.
              Inr (in_section,
                   if in_section \<and> strip line \<noteq> [] then append_item 10 objectives line
                   else objectives)))"

definition objectives_of_lines :: "pystr list \<Rightarrow> py_error + pystr list" where
  "objectives_of_lines lines =
     bind_err (run_lines objectives_step (False, []) lines) (\<lambda>st. Inr (take 8 (snd st)))"

definition extract_objectives :: "pystr \<Rightarrow> py_error + pystr list" where
  "extract_objectives notes = objectives_of_lines (split_on 10 notes)"

text \<open>
  The loop body shared, up to its markers, by \<^verbatim>\<open>_extract_prior_knowledge\<close> and
  \<^verbatim>\<open>_extract_real_world\<close>; nothing in it can raise. Here \<^verbatim>\<open>line_lower\<close> is not
  stripped.
\<close>

definition indented_step :: "pystr list \<Rightarrow> section_state \<Rightarrow> pystr \<Rightarrow> section_state" where
  "indented_step markers st line =
     (let in_section = fst st;
          items = snd st;
          line_lower = lower line
      in if contains_any markers line_lower then (True, items)
         else if in_section
         then (if strip line \<noteq> [] \<and> \<not> starts_bullet line
               then ((if has_colon line then False else in_section), items)
               else if strip line \<noteq> [] then (in_section, append_item 5 items line)
               else (in_section, items))
         else (in_section, items))"

definition prior_markers :: "pystr list" where
  "prior_markers = map str [''prior knowledge'', ''prerequisite'']"

definition prior_step :: "section_state \<Rightarrow> pystr \<Rightarrow> section_state" where
  "prior_step = indented_step prior_markers"

definition prior_knowledge_of_lines :: "pystr list \<Rightarrow> pystr list" where
  "prior_knowledge_of_lines lines = take 8 (snd (foldl prior_step (False, []) lines))"

definition extract_prior_knowledge :: "pystr \<Rightarrow> pystr list" where
  "extract_prior_knowledge notes = prior_knowledge_of_lines (split_on 10 notes)"

definition real_world_markers :: "pystr list" where
  "real_world_markers = map str [''real-world'', ''real world'', ''application'', ''connection'']"

definition real_world_step :: "section_state \<Rightarrow> pystr \<Rightarrow> section_state" where
  "real_world_step = indented_step real_world_markers"

definition real_world_of_lines :: "pystr list \<Rightarrow> pystr list" where
  "real_world_of_lines lines = take 8 (snd (foldl real_world_step (False, []) lines))"

definition extract_real_world :: "pystr \<Rightarrow> pystr list" where
  "extract_real_world notes = real_world_of_lines (split_on 10 notes)"

subsection \<open>Vocabulary and topics\<close>

text \<open>\<^verbatim>\<open>line.split(':', 1)[1]\<close>: index 1 does not exist when the line has no colon.\<close>

definition after_first_colon :: "pystr \<Rightarrow> py_error + pystr" where
  "after_first_colon line =
     (case dropWhile (\<lambda>c. c \<noteq> 58) line of [] \<Rightarrow> Inl IndexError | _ # rest \<Rightarrow> Inr rest)"

definition vocabulary_step :: "pystr list \<Rightarrow> pystr \<Rightarrow> py_error + pystr list" where
  "vocabulary_step vocab line =
     (let line_lower = lower line
      in if contains (str ''vocabulary'') line_lower \<or> contains (str ''vocab'') line_lower
            \<or> contains (str ''terms'') line_lower
         then (if has_colon line
               then bind_err (after_first_colon line)
                      (\<lambda>terms_text.
                         let terms = split_where (\<lambda>c. c = 44 \<or> c = 59) terms_text
                         in Inr (vocab @ map strip (filter (\<lambda>term. strip term \<noteq> []) terms)))
               else Inr vocab)
         else Inr vocab)"

definition vocabulary_of_lines :: "pystr list \<Rightarrow> py_error + pystr list" where
  "vocabulary_of_lines lines =
     bind_err (run_lines vocabulary_step [] lines) (\<lambda>vocab. Inr (take 15 vocab))"

definition extract_vocabulary :: "pystr \<Rightarrow> py_error + pystr list" where
  "extract_vocabulary notes = vocabulary_of_lines (split_on 10 notes)"

text \<open>\<^verbatim>\<open>re.sub(r'^[\d\.\)\-*\s]+', '', line_stripped)\<close>, the class holding the bullet too.\<close>

definition strip_numbering :: "pystr \<Rightarrow> pystr" where
  "strip_numbering s =
     dropWhile (\<lambda>c. isdigit c \<or> c = 46 \<or> c = 41 \<or> c = 45 \<or> c = bullet \<or> c = 42 \<or> isspace c) s"

definition topics_step :: "pystr list \<Rightarrow> pystr \<Rightarrow> py_error + pystr list" where
  "topics_step topics line =
     (let line_stripped = strip line
      in if line_stripped = [] then Inr topics
         else bind_err (first_char line_stripped)
                (\<lambda>c. if isdigit c \<or> prefix [45] line_stripped \<or> prefix [bullet] line_stripped
                         \<or> prefix [42] line_stripped
                      then (let topic = strip_numbering line_stripped
                            in if topic \<noteq> [] \<and> length topic > 5 \<and> length topic < 100
                               then Inr (topics @ [topic]) else Inr topics)
                      else Inr topics))"

definition topics_of_lines :: "pystr list \<Rightarrow> py_error + pystr list" where
  "topics_of_lines lines =
     bind_err (run_lines topics_step [] lines) (\<lambda>topics. Inr (take 10 topics))"

definition extract_topics :: "pystr \<Rightarrow> py_error + pystr list" where
  "extract_topics notes = topics_of_lines (split_on 10 notes)"

subsection \<open>The analysis and its rendering\<close>

record content_stats =
  total_words :: nat
  total_lines :: nat
  has_objectives :: bool
  has_vocabulary :: bool
  has_standards :: bool

record analysis =
  subject :: pystr
  grade_level :: pystr
  key_concepts :: "pystr list"
  learning_objectives :: "pystr list"
  vocabulary :: "pystr list"
  topics :: "pystr list"
  prior_knowledge :: "pystr list"
  real_world_connections :: "pystr list"
  content_stats :: content_stats

definition content_stats_of :: "pystr \<Rightarrow> content_stats" where
  "content_stats_of notes =
     \<lparr>total_words = length (split_ws notes),
      total_lines = length (split_on 10 notes),
      has_objectives = contains (str ''objective'') (lower notes),
      has_vocabulary = (contains (str ''vocabulary'') (lower notes)
                        \<or> contains (str ''vocab'') (lower notes)),
      has_standards = contains (str ''standard'') (lower notes)\<rparr>"

text \<open>The dictionary \<^verbatim>\<open>analysis\<close> of \<^verbatim>\<open>run\<close>, its entries computed in the order written.\<close>

definition analyze :: "pystr \<Rightarrow> py_error + analysis" where
  "analyze notes =
     bind_err (identify_subject notes) (\<lambda>subj.
     bind_err (extract_key_concepts notes) (\<lambda>concepts.
     bind_err (extract_objectives notes) (\<lambda>objectives.
     bind_err (extract_vocabulary notes) (\<lambda>vocab.
     bind_err (extract_topics notes) (\<lambda>tops.
       Inr \<lparr>subject = subj,
            grade_level = extract_grade_level notes,
            key_concepts = concepts,
            learning_objectives = objectives,
            vocabulary = vocab,
            topics = tops,
            prior_knowledge = extract_prior_knowledge notes,
            real_world_connections = extract_real_world notes,
            content_stats = content_stats_of notes\<rparr>)))))"

text \<open>\<^verbatim>\<open>str(n)\<close> for a non-negative integer, and \<^verbatim>\<open>str(b)\<close> for a Boolean.\<close>

fun str_nat :: "nat \<Rightarrow> pystr" where
  "str_nat n = (if n < 10 then [48 + n] else str_nat (n div 10) @ [48 + n mod 10])"

declare str_nat.simps [simp del]

definition str_bool :: "bool \<Rightarrow> pystr" where
  "str_bool b = (if b then str ''True'' else str ''False'')"

text \<open>\<^verbatim>\<open>', '.join(xs)\<close>.\<close>

fun join_comma :: "pystr list \<Rightarrow> pystr" where
  "join_comma [] = []"
| "join_comma [x] = x"
| "join_comma (x # y # ys) = x @ str '', '' @ join_comma (y # ys)"

text \<open>A headed block of item lines followed by an empty line, or nothing for no items.\<close>

definition render_block :: "string \<Rightarrow> pystr list \<Rightarrow> pystr" where
  "render_block heading items =
     (if items \<noteq> []
      then str heading @ [10] @ concat (map (\<lambda>x. item_prefix @ x @ [10]) items) @ [10]
      else [])"

definition render_analysis :: "analysis \<Rightarrow> pystr" where
  "render_analysis a =
     str ''=== TEACHING NOTES ANALYSIS ==='' @ [10, 10]
     @ str ''Subject Area: '' @ subject a @ [10]
     @ str ''Grade Level: '' @ grade_level a @ [10, 10]
     @ render_block ''Key Concepts:'' (key_concepts a)
     @ render_block ''Learning Objectives Found:'' (learning_objectives a)
     @ (if vocabulary a \<noteq> []
        then str ''Vocabulary Terms: '' @ join_comma (vocabulary a) @ [10, 10] else [])
     @ render_block ''Prior Knowledge Required:'' (prior_knowledge a)
     @ render_block ''Real-World Connections:'' (real_world_connections a)
     @ str ''Content Statistics:'' @ [10]
     @ item_prefix @ str ''Total Words: '' @ str_nat (total_words (content_stats a)) @ [10]
     @ item_prefix @ str ''Has Objectives: ''
       @ str_bool (has_objectives (content_stats a)) @ [10]
     @ item_prefix @ str ''Has Vocabulary: ''
       @ str_bool (has_vocabulary (content_stats a)) @ [10]"

definition NotesAnalysisTool_run :: "pystr \<Rightarrow> py_error + pystr" where
  "NotesAnalysisTool_run notes = bind_err (analyze notes) (\<lambda>a. Inr (render_analysis a))"

section \<open>The scoring of the specification\<close>

text \<open>
  The specification words the score of a category as the number of occurrences of its
  keywords. This second scoring follows those words, for comparison with
  \<open>keyword_score\<close>: every position of the text where a keyword starts counts.
\<close>

fun occurrences :: "pystr \<Rightarrow> pystr \<Rightarrow> nat" where
  "occurrences sub [] = 0"
| "occurrences sub (c # cs) = (if prefix sub (c # cs) then 1 else 0) + occurrences sub cs"

definition spec_keyword_score :: "pystr \<Rightarrow> pystr list \<Rightarrow> nat" where
  "spec_keyword_score notes_lower keywords =
     sum_list (map (\<lambda>keyword. occurrences keyword notes_lower) keywords)"

section \<open>Predicates for stating the properties\<close>


section \<open>No operation of the analyzers raises\<close>

lemma split_where_nonempty: "split_where P s \<noteq> []"
  by (induction s) (auto split: list.splits)

lemma split_on_nonempty: "split_on sep s \<noteq> []"
  by (simp add: split_on_def split_where_nonempty)

lemma strip_nonempty: "strip s \<noteq> [] \<Longrightarrow> s \<noteq> []"
  by (auto simp: strip_def)

lemma contains_single: "contains [c] s = (c \<in> set s)"
  by (induction s) auto

lemma has_colon_iff: "has_colon line = (58 \<in> set line)"
  by (simp add: has_colon_def str_def contains_single)

lemma after_first_colon_ok: "has_colon line \<Longrightarrow> \<exists>t. after_first_colon line = Inr t"
proof -
  assume "has_colon line"
  then have "58 \<in> set line" by (simp add: has_colon_iff)
  then have "dropWhile (\<lambda>c. c \<noteq> 58) line \<noteq> []" by (simp add: dropWhile_eq_Nil_conv)
  then show ?thesis by (auto simp: after_first_colon_def split: list.splits)
qed

lemma run_lines_total:
  assumes "\<And>st line. \<exists>st'. step st line = Inr st'"
  shows "\<exists>st'. run_lines step st ls = Inr st'"
proof (induction ls arbitrary: st)
  case Nil
  show ?case by simp
next
  case (Cons l ls)
  obtain st1 where "step st l = Inr st1" using assms by blast
  with Cons show ?case by simp
qed

lemma first_char_ok: "s \<noteq> [] \<Longrightarrow> \<exists>c. first_char s = Inr c \<and> s = c # tl s"
  by (cases s) (auto simp: first_char_def)

lemma concepts_step_total: "\<exists>st'. concepts_step st line = Inr st'"
proof (cases "strip line = []")
  case True
  then show ?thesis by (auto simp: concepts_step_def bind_err_def Let_def)
next
  case False
  then obtain c where "first_char line = Inr c" using first_char_ok strip_nonempty by blast
  then show ?thesis by (auto simp: concepts_step_def bind_err_def Let_def)
qed

lemma objectives_step_total: "\<exists>st'. objectives_step st line = Inr st'"
proof (cases "strip line = []")
  case True
  then show ?thesis by (auto simp: objectives_step_def bind_err_def Let_def)
next
  case False
  then obtain c where "first_char line = Inr c" using first_char_ok strip_nonempty by blast
  then show ?thesis by (auto simp: objectives_step_def bind_err_def Let_def)
qed

lemma vocabulary_step_total: "\<exists>v. vocabulary_step vocab line = Inr v"
proof (cases "has_colon line")
  case True
  then obtain t where "after_first_colon line = Inr t" using after_first_colon_ok by blast
  then show ?thesis by (simp add: vocabulary_step_def bind_err_def Let_def)
next
  case False
  then show ?thesis by (simp add: vocabulary_step_def bind_err_def Let_def)
qed

lemma topics_step_total: "\<exists>t. topics_step ts line = Inr t"
proof (cases "strip line = []")
  case True
  then show ?thesis by (simp add: topics_step_def)
next
  case False
  then obtain c where "first_char (strip line) = Inr c" using first_char_ok by blast
  then show ?thesis using False by (simp add: topics_step_def bind_err_def Let_def)
qed

lemma py_max_ok: "xs \<noteq> [] \<Longrightarrow> \<exists>m. py_max key xs = Inr m"
  by (cases xs) (auto simp: py_max_def)

lemma identify_subject_total: "\<exists>subj. identify_subject s = Inr subj"
proof (cases "score_subjects (lower s) subject_keywords = []")
  case True
  then show ?thesis by (simp add: identify_subject_def Let_def)
next
  case False
  then obtain m where "py_max snd (score_subjects (lower s) subject_keywords) = Inr m"
    using py_max_ok by blast
  then show ?thesis using False by (simp add: identify_subject_def Let_def bind_err_def)
qed

lemma key_concepts_of_lines_ok:
  "\<exists>st. run_lines concepts_step (False, []) ls = Inr st
        \<and> key_concepts_of_lines ls = Inr (take 10 (snd st))"
proof -
  obtain st where "run_lines concepts_step (False, []) ls = Inr st"
    using run_lines_total [of concepts_step] concepts_step_total by blast
  then show ?thesis by (simp add: key_concepts_of_lines_def bind_err_def)
qed

lemma objectives_of_lines_ok:
  "\<exists>st. run_lines objectives_step (False, []) ls = Inr st
        \<and> objectives_of_lines ls = Inr (take 8 (snd st))"
proof -
  obtain st where "run_lines objectives_step (False, []) ls = Inr st"
    using run_lines_total [of objectives_step] objectives_step_total by blast
  then show ?thesis by (simp add: objectives_of_lines_def bind_err_def)
qed

lemma vocabulary_of_lines_ok:
  "\<exists>v. run_lines vocabulary_step [] ls = Inr v
        \<and> vocabulary_of_lines ls = Inr (take 15 v)"
proof -
  obtain v where "run_lines vocabulary_step [] ls = Inr v"
    using run_lines_total [of vocabulary_step] vocabulary_step_total by blast
  then show ?thesis by (simp add: vocabulary_of_lines_def bind_err_def)
qed

lemma topics_of_lines_ok:
  "\<exists>t. run_lines topics_step [] ls = Inr t
        \<and> topics_of_lines ls = Inr (take 10 t)"
proof -
  obtain t where "run_lines topics_step [] ls = Inr t"
    using run_lines_total [of topics_step] topics_step_total by blast
  then show ?thesis by (simp add: topics_of_lines_def bind_err_def)
qed

lemma analyze_ok:
  "\<exists>subj cs os v t.
     identify_subject s = Inr subj
     \<and> extract_key_concepts s = Inr cs
     \<and> extract_objectives s = Inr os
     \<and> extract_vocabulary s = Inr v
     \<and> extract_topics s = Inr t
     \<and> analyze s =
         Inr \<lparr>subject = subj, grade_level = extract_grade_level s,
              key_concepts = cs, learning_objectives = os, vocabulary = v, topics = t,
              prior_knowledge = extract_prior_knowledge s,
              real_world_connections = extract_real_world s,
              content_stats = content_stats_of s\<rparr>"
proof -
  obtain subj where 1: "identify_subject s = Inr subj"
    using identify_subject_total by blast
  obtain cs where 2: "extract_key_concepts s = Inr cs"
    using key_concepts_of_lines_ok by (auto simp: extract_key_concepts_def)
  obtain os where 3: "extract_objectives s = Inr os"
    using objectives_of_lines_ok by (auto simp: extract_objectives_def)
  obtain v where 4: "extract_vocabulary s = Inr v"
    using vocabulary_of_lines_ok by (auto simp: extract_vocabulary_def)
  obtain t where 5: "extract_topics s = Inr t"
    using topics_of_lines_ok by (auto simp: extract_topics_def)
  show ?thesis using 1 2 3 4 5 by (simp add: analyze_def bind_err_def)
qed

lemma complexity_analysis_ok:
  "complexity_analysis s =
     Inr \<lparr>grade_range = fst (bracket (if split_ws s = [] then 0
                 else of_nat (sum_list (map length (split_ws s))) / of_nat (length (split_ws s)))
               (of_nat (length (split_ws s)) / of_nat (length (split_on 46 s)))),
          complexity = snd (bracket (if split_ws s = [] then 0
                 else of_nat (sum_list (map length (split_ws s))) / of_nat (length (split_ws s)))
               (of_nat (length (split_ws s)) / of_nat (length (split_on 46 s)))),
          avg_word_length = (if split_ws s = [] then 0
                 else of_nat (sum_list (map length (split_ws s))) / of_nat (length (split_ws s))),
          avg_sentence_length = of_nat (length (split_ws s)) / of_nat (length (split_on 46 s))\<rparr>"
  using split_on_nonempty [of 46 s]
  by (simp add: complexity_analysis_def avg_word_length_of_def avg_sentence_length_of_def
      truediv_def Let_def)

text \<open>
  Claim C7. Both analyzers are total: on every input string each returns a result and
  no error. The divisions of the complexity analyzer are guarded: without tokens the
  average word length is 0, and the split on the full stop always yields a segment. On
  the empty string the complexity analyzer returns both averages 0, and the notes
  analyzer returns empty sequences with the default subject and grade labels.
\<close>

theorem analyzers_total: "(\<exists>r. NotesAnalysisTool_run s = Inr r)
   \<and> (\<exists>r. GradeLevelAnalyzer_run fmt s = Inr r)
   \<and> avg_word_length_of [] = Inr 0
   \<and> split_on 46 s \<noteq> []
   \<and> complexity_analysis [] =
       Inr \<lparr>grade_range = Elementary, complexity = Low,
            avg_word_length = 0, avg_sentence_length = 0\<rparr>
   \<and> analyze [] =
       Inr \<lparr>subject = str ''General/Multi-Subject'',
            grade_level = str ''Not Specified (Grades 6-12 adaptable)'',
            key_concepts = [], learning_objectives = [], vocabulary = [], topics = [],
            prior_knowledge = [], real_world_connections = [],
            content_stats = \<lparr>total_words = 0, total_lines = 1, has_objectives = False,
                              has_vocabulary = False, has_standards = False\<rparr>\<rparr>"
proof -
  have a: "\<exists>r. NotesAnalysisTool_run s = Inr r"
    using analyze_ok [of s] by (auto simp: NotesAnalysisTool_run_def bind_err_def)
  have b: "\<exists>r. GradeLevelAnalyzer_run fmt s = Inr r"
    by (simp add: GradeLevelAnalyzer_run_def complexity_analysis_ok)
  have c: "avg_word_length_of [] = Inr 0" by (simp add: avg_word_length_of_def)
  have d: "split_on 46 s \<noteq> []" by (rule split_on_nonempty)
  have e: "complexity_analysis [] =
       Inr \<lparr>grade_range = Elementary, complexity = Low,
            avg_word_length = 0, avg_sentence_length = 0\<rparr>"
    by code_simp
  have f: "analyze [] =
       Inr \<lparr>subject = str ''General/Multi-Subject'',
            grade_level = str ''Not Specified (Grades 6-12 adaptable)'',
            key_concepts = [], learning_objectives = [], vocabulary = [], topics = [],
            prior_knowledge = [], real_world_connections = [],
            content_stats = \<lparr>total_words = 0, total_lines = 1, has_objectives = False,
                              has_vocabulary = False, has_standards = False\<rparr>\<rparr>"
    by code_simp
  show ?thesis using a b c d e f by blast
qed


theorem analyzers_total_witness:
  "(\<exists>r. NotesAnalysisTool_run (str ''The cat sat.'') = Inr r)
   \<and> (\<exists>r. GradeLevelAnalyzer_run (\<lambda>x. []) (str ''The cat sat.'') = Inr r)
   \<and> split_on 46 (str ''The cat sat.'') \<noteq> []"
  using analyzers_total [of "str ''The cat sat.''" "\<lambda>x. []"] by blast

section \<open>The complexity brackets\<close>



section \<open>The content statistics\<close>

text \<open>
  Claim C10. On every input the content statistics have \<open>total_lines\<close> at least 1, the
  split on the newline never being empty; for the empty string \<open>total_words\<close> is 0 and
  \<open>total_lines\<close> is 1.
\<close>

theorem total_lines_positive: "\<exists>a. analyze s = Inr a
   \<and> total_lines (content_stats a) = length (split_on 10 s)
   \<and> 1 \<le> total_lines (content_stats a)
   \<and> (s = [] \<longrightarrow> total_words (content_stats a) = 0 \<and> total_lines (content_stats a) = 1)"
proof -
  obtain a where a: "analyze s = Inr a" and cs: "content_stats a = content_stats_of s"
    using analyze_ok [of s] by auto
  have n: "split_on 10 s \<noteq> []" by (rule split_on_nonempty)
  then have "1 \<le> length (split_on 10 s)" by (cases "split_on 10 s") auto
  then have 1: "1 \<le> total_lines (content_stats a)"
    by (simp add: cs content_stats_of_def)
  have 2: "s = [] \<longrightarrow> total_words (content_stats a) = 0 \<and> total_lines (content_stats a) = 1"
    by (simp add: cs content_stats_of_def split_ws_def split_on_def)
  have 3: "total_lines (content_stats a) = length (split_on 10 s)"
    by (simp add: cs content_stats_of_def)
  show ?thesis using a 1 2 3 by blast
qed

theorem total_lines_positive_witness:
  "\<exists>a. analyze [] = Inr a
     \<and> total_words (content_stats a) = 0 \<and> total_lines (content_stats a) = 1"
  using total_lines_positive [of "[]"] by auto

section \<open>The caps and the order of the extracted sequences\<close>






















section \<open>The subject classifier\<close>

lemma max_from_stays: "(\<forall>z\<in>set zs. key z \<le> key m) \<Longrightarrow> max_from key m zs = m"
  by (induction zs) auto

lemma max_from_first:
  "(\<forall>y\<in>set ys. key y < key m) \<Longrightarrow> key b < key m \<Longrightarrow> (\<forall>z\<in>set zs. key z \<le> key m)
   \<Longrightarrow> max_from key b (ys @ m # zs) = m"
  by (induction ys arbitrary: b) (auto simp: max_from_stays)

lemma py_max_first:
  assumes "\<forall>y\<in>set ys. key y < key m" and "\<forall>z\<in>set zs. key z \<le> key m"
  shows "py_max key (ys @ m # zs) = Inr m"
proof (cases ys)
  case Nil
  then show ?thesis using assms by (simp add: py_max_def max_from_stays)
next
  case (Cons y ys')
  then show ?thesis using assms max_from_first [of ys' key m y zs] by (simp add: py_max_def)
qed

lemma max_from_in: "max_from key b xs \<in> set (b # xs)"
  by (induction xs arbitrary: b) auto

lemma max_from_ge: "x \<in> set (b # xs) \<Longrightarrow> key x \<le> key (max_from key b xs)"
proof (induction xs arbitrary: b x)
  case Nil
  then show ?case by simp
next
  case (Cons a xs)
  show ?case
  proof (cases "key a > key b")
    case True
    have "key x \<le> key (max_from key a xs)"
    proof (cases "x = b")
      case True
      have "key a \<le> key (max_from key a xs)" using Cons.IH [of a a] by simp
      then show ?thesis using True \<open>key a > key b\<close> by simp
    next
      case False
      then have "x \<in> set (a # xs)" using Cons.prems by auto
      then show ?thesis using Cons.IH by blast
    qed
    then show ?thesis using True by simp
  next
    case False
    have "key x \<le> key (max_from key b xs)"
    proof (cases "x = a")
      case True
      have "key b \<le> key (max_from key b xs)" using Cons.IH [of b b] by simp
      then show ?thesis using True False by simp
    next
      case False
      then have "x \<in> set (b # xs)" using Cons.prems by auto
      then show ?thesis using Cons.IH by blast
    qed
    then show ?thesis using False by simp
  qed
qed

lemma score_subjects_append:
  "score_subjects nl (xs @ ys) = score_subjects nl xs @ score_subjects nl ys"
  by (induction xs) (auto simp: Let_def)

lemma score_subjects_entry:
  "e \<in> set (score_subjects nl xs)
   \<Longrightarrow> \<exists>n k. (n, k) \<in> set xs \<and> e = (n, keyword_score nl k) \<and> 0 < keyword_score nl k"
proof (induction xs)
  case Nil
  then show ?case by simp
next
  case (Cons x xs)
  obtain n k where x: "x = (n, k)" by (cases x)
  show ?case
  proof (cases "e = (n, keyword_score nl k) \<and> 0 < keyword_score nl k")
    case True
    then show ?thesis using x by auto
  next
    case False
    then have "e \<in> set (score_subjects nl xs)"
      using Cons.prems x by (auto simp: Let_def split: if_splits)
    then show ?thesis using Cons.IH by auto
  qed
qed

lemma score_subjects_mem:
  "(n, k) \<in> set xs \<Longrightarrow> 0 < keyword_score nl k
   \<Longrightarrow> (n, keyword_score nl k) \<in> set (score_subjects nl xs)"
  by (induction xs) (auto simp: Let_def)

lemma score_subjects_empty:
  "(score_subjects nl xs = []) = (\<forall>(n, k)\<in>set xs. keyword_score nl k = 0)"
proof (induction xs)
  case Nil
  show ?case by simp
next
  case (Cons x xs)
  obtain n k where x: "x = (n, k)" by (cases x)
  show ?case using Cons.IH by (cases "0 < keyword_score nl k") (simp_all add: x Let_def)
qed

lemma declaration_order:
  "map fst subject_keywords =
     [str ''Mathematics'', str ''Science'', str ''English/Language Arts'',
      str ''Social Studies/History'', str ''Music'', str ''Art'',
      str ''Physical Education'', str ''Computer Science'']"
  by (simp add: subject_keywords_def)

text \<open>
  Claim C5. The classification is order-stable. The categories are declared in the order
  Mathematics, Science, English/Language Arts, Social Studies/History, Music, Art,
  Physical Education, Computer Science. A category with a nonzero score wins whenever
  every category declared before it scores strictly less and every category declared
  after it scores at most as much: of two categories that tie at the top, the one
  declared earlier is returned.
\<close>

theorem earlier_declared_wins_tie:
  "map fst subject_keywords =
     [str ''Mathematics'', str ''Science'', str ''English/Language Arts'',
      str ''Social Studies/History'', str ''Music'', str ''Art'',
      str ''Physical Education'', str ''Computer Science'']
   \<and> (subject_keywords = earlier @ (name, kws) # later
        \<and> 0 < keyword_score (lower s) kws
        \<and> (\<forall>(n, k)\<in>set earlier. keyword_score (lower s) k < keyword_score (lower s) kws)
        \<and> (\<forall>(n, k)\<in>set later. keyword_score (lower s) k \<le> keyword_score (lower s) kws)
       \<longrightarrow> identify_subject s = Inr name)"
proof -
  have "identify_subject s = Inr name"
    if dec: "subject_keywords = earlier @ (name, kws) # later"
      and pos: "0 < keyword_score (lower s) kws"
      and lt: "\<forall>(n, k)\<in>set earlier. keyword_score (lower s) k < keyword_score (lower s) kws"
      and le: "\<forall>(n, k)\<in>set later. keyword_score (lower s) k \<le> keyword_score (lower s) kws"
  proof -
    let ?m = "(name, keyword_score (lower s) kws)"
    let ?ys = "score_subjects (lower s) earlier"
    let ?zs = "score_subjects (lower s) later"
    have sc: "score_subjects (lower s) subject_keywords = ?ys @ ?m # ?zs"
      using pos by (simp add: dec score_subjects_append Let_def)
    have 1: "\<forall>y\<in>set ?ys. snd y < snd ?m"
      using lt score_subjects_entry [of _ "lower s" earlier] by fastforce
    have 2: "\<forall>z\<in>set ?zs. snd z \<le> snd ?m"
      using le score_subjects_entry [of _ "lower s" later] by fastforce
    have "py_max snd (?ys @ ?m # ?zs) = Inr ?m" using 1 2 by (rule py_max_first)
    then show ?thesis by (simp add: identify_subject_def sc bind_err_def Let_def)
  qed
  then show ?thesis using declaration_order by blast
qed

theorem earlier_declared_wins_tie_witness:
  "keyword_score (lower (str ''cell rhythm'')) (snd (subject_keywords ! 1)) = 1
   \<and> keyword_score (lower (str ''cell rhythm'')) (snd (subject_keywords ! 4)) = 1
   \<and> identify_subject (str ''cell rhythm'') = Inr (str ''Science'')"
proof -
  let ?s = "str ''cell rhythm''"
  let ?kws = "snd (subject_keywords ! 1)"
  have h1: "subject_keywords =
      take 1 subject_keywords @ (str ''Science'', ?kws) # drop 2 subject_keywords"
    by code_simp
  have h2: "0 < keyword_score (lower ?s) ?kws" by code_simp
  have h3: "\<forall>(n, k)\<in>set (take 1 subject_keywords).
      keyword_score (lower ?s) k < keyword_score (lower ?s) ?kws"
    by code_simp
  have h4: "\<forall>(n, k)\<in>set (drop 2 subject_keywords).
      keyword_score (lower ?s) k \<le> keyword_score (lower ?s) ?kws"
    by code_simp
  have r: "identify_subject ?s = Inr (str ''Science'')"
    using earlier_declared_wins_tie [of "take 1 subject_keywords" "str ''Science''" ?kws "drop 2 subject_keywords" ?s]
      h1 h2 h3 h4 by blast
  have e1: "keyword_score (lower ?s) ?kws = 1" by code_simp
  have e2: "keyword_score (lower ?s) (snd (subject_keywords ! 4)) = 1" by code_simp
  show ?thesis using r e1 e2 by blast
qed

lemma keywords_distinct: "\<forall>(n, kws)\<in>set subject_keywords. distinct kws"
  by code_simp

text \<open>
  Claim C1, as the code has it. The score of a category is the number of its keywords
  that occur in the lower-cased text, each keyword counting once however often it
  occurs, so a score never exceeds the number of keywords of the category. The
  classifier returns "General/Multi-Subject" when every category scores zero, and
  otherwise a category whose score is the highest.
\<close>

theorem subject_counts_keywords_present:
  "(\<forall>(n, kws)\<in>set subject_keywords.
      keyword_score (lower s) kws = card {k \<in> set kws. contains k (lower s)}
      \<and> keyword_score (lower s) kws \<le> length kws)
   \<and> ((\<forall>(n, kws)\<in>set subject_keywords. keyword_score (lower s) kws = 0)
        \<longrightarrow> identify_subject s = Inr (str ''General/Multi-Subject''))
   \<and> ((\<exists>(n, kws)\<in>set subject_keywords. 0 < keyword_score (lower s) kws)
        \<longrightarrow> (\<exists>(n, kws)\<in>set subject_keywords.
               identify_subject s = Inr n
               \<and> (\<forall>(n', kws')\<in>set subject_keywords.
                     keyword_score (lower s) kws' \<le> keyword_score (lower s) kws)))"
proof -
  let ?nl = "lower s"
  let ?sc = "score_subjects ?nl subject_keywords"
  have a: "\<forall>(n, kws)\<in>set subject_keywords.
      keyword_score ?nl kws = card {k \<in> set kws. contains k ?nl}
      \<and> keyword_score ?nl kws \<le> length kws"
  proof (clarify)
    fix n kws
    assume "(n, kws) \<in> set subject_keywords"
    then have d: "distinct kws" using keywords_distinct by blast
    have "{k \<in> set kws. contains k ?nl} = {k. contains k ?nl} \<inter> set kws" by blast
    then have "keyword_score ?nl kws = card {k \<in> set kws. contains k ?nl}"
      using d by (simp add: keyword_score_def distinct_length_filter)
    moreover have "keyword_score ?nl kws \<le> length kws" by (simp add: keyword_score_def)
    ultimately show "keyword_score ?nl kws = card {k \<in> set kws. contains k ?nl}
      \<and> keyword_score ?nl kws \<le> length kws" by simp
  qed
  have b: "(\<forall>(n, kws)\<in>set subject_keywords. keyword_score ?nl kws = 0)
        \<longrightarrow> identify_subject s = Inr (str ''General/Multi-Subject'')"
    using score_subjects_empty [of ?nl subject_keywords]
    by (simp add: identify_subject_def Let_def)
  have c: "\<exists>(n, kws)\<in>set subject_keywords.
               identify_subject s = Inr n
               \<and> (\<forall>(n', kws')\<in>set subject_keywords.
                     keyword_score ?nl kws' \<le> keyword_score ?nl kws)"
    if "\<exists>(n, kws)\<in>set subject_keywords. 0 < keyword_score ?nl kws"
  proof -
    have ne: "?sc \<noteq> []" using that score_subjects_empty [of ?nl subject_keywords] by auto
    then obtain b rest where br: "?sc = b # rest" by (cases ?sc) auto
    let ?m = "max_from snd b rest"
    have "?m \<in> set ?sc" using max_from_in [of snd b rest] br by simp
    then obtain n k where nk: "(n, k) \<in> set subject_keywords"
      and m: "?m = (n, keyword_score ?nl k)"
      using score_subjects_entry by blast
    have res: "identify_subject s = Inr n"
      using br m by (simp add: identify_subject_def Let_def py_max_def bind_err_def)
    have "keyword_score ?nl k' \<le> keyword_score ?nl k" if "(n', k') \<in> set subject_keywords" for n' k'
    proof (cases "0 < keyword_score ?nl k'")
      case True
      then have "(n', keyword_score ?nl k') \<in> set (b # rest)"
        using that score_subjects_mem br by metis
      then have "snd (n', keyword_score ?nl k') \<le> snd ?m" by (rule max_from_ge)
      then show ?thesis using m by simp
    next
      case False
      then show ?thesis by simp
    qed
    then show ?thesis using nk res by blast
  qed
  show ?thesis using a b c by blast
qed

theorem subject_counts_keywords_present_witness:
  "(\<exists>(n, kws)\<in>set subject_keywords. 0 < keyword_score (lower (str ''atom poem atom'')) kws)
   \<and> (\<exists>(n, kws)\<in>set subject_keywords.
         identify_subject (str ''atom poem atom'') = Inr n
         \<and> (\<forall>(n', kws')\<in>set subject_keywords.
               keyword_score (lower (str ''atom poem atom'')) kws'
               \<le> keyword_score (lower (str ''atom poem atom'')) kws))"
proof -
  have h: "\<exists>(n, kws)\<in>set subject_keywords. 0 < keyword_score (lower (str ''atom poem atom'')) kws"
    by code_simp
  then show ?thesis using subject_counts_keywords_present [of "str ''atom poem atom''"] by blast
qed

text \<open>
  Claim C1 as stated fails: in "equation equation cell atom" the keyword "equation"
  occurs twice, and counting occurrences gives Mathematics and Science 2 each, a tie
  that the first-declared Mathematics would win. The code scores Mathematics 1 and
  returns Science.
\<close>

theorem subject_counts_occurrences_counterexample:
  "occurrences (str ''equation'') (lower (str ''equation equation cell atom'')) = 2
   \<and> spec_keyword_score (lower (str ''equation equation cell atom''))
        (snd (subject_keywords ! 0)) = 2
   \<and> spec_keyword_score (lower (str ''equation equation cell atom''))
        (snd (subject_keywords ! 1)) = 2
   \<and> keyword_score (lower (str ''equation equation cell atom''))
        (snd (subject_keywords ! 0)) = 1
   \<and> identify_subject (str ''equation equation cell atom'') = Inr (str ''Science'')"
  by code_simp


section \<open>The state machines of the line-scanned sections\<close>





lemma contains_Nil: "contains m [] = (m = [])"
  by simp












section \<open>The priority order of the grade level\<close>
























section \<open>The rendered complexity report\<close>










end
